theory Spec2Isabelle
  imports Main
begin

section \<open>Data model\<close>

text \<open>
  The notebook \<^verbatim>\<open>rag.ipynb\<close> passes \<^verbatim>\<open>Document\<close> values between its steps: a text
  \<^verbatim>\<open>page_content\<close> and a dictionary \<^verbatim>\<open>metadata\<close>. Metadata values are the scalars a
  PDF loader produces (strings, page numbers, flags, \<^verbatim>\<open>None\<close>). Two documents are equal
  when both fields are equal, which is what Python's \<^verbatim>\<open>doc not in list\<close> tests.
\<close>

datatype scalar = Str string | Num int | Flag bool | Null

record document =
  page_content :: string
  metadata :: "string \<rightharpoonup> scalar"

text \<open>The exceptions the modelled statements can raise or pass on.\<close>

datatype error = KeyError string | IndexError | ValueError | ServiceError

section \<open>Step 2: trimming the metadata\<close>

text \<open>
  \<^verbatim>\<open>{key: data.metadata.get(key) for key in important_metadata if key in data.metadata}\<close>:
  the comprehension walks the allow-list in order and stores \<^verbatim>\<open>metadata.get(key)\<close> for
  every key that the parent's metadata has; a later occurrence of a key overwrites an
  earlier one.
\<close>

definition dict_get :: "(string \<rightharpoonup> scalar) \<Rightarrow> string \<Rightarrow> scalar" where
  "dict_get m key = (case m key of None \<Rightarrow> Null | Some v \<Rightarrow> v)"

fun trimmed_metadata_from ::
  "(string \<rightharpoonup> scalar) \<Rightarrow> string list \<Rightarrow> (string \<rightharpoonup> scalar) \<Rightarrow> (string \<rightharpoonup> scalar)" where
  "trimmed_metadata_from acc [] m = acc"
| "trimmed_metadata_from acc (key # keys) m =
     (if key \<in> dom m then trimmed_metadata_from (acc(key \<mapsto> dict_get m key)) keys m
      else trimmed_metadata_from acc keys m)"

definition trimmed_metadata :: "string list \<Rightarrow> (string \<rightharpoonup> scalar) \<Rightarrow> (string \<rightharpoonup> scalar)" where
  "trimmed_metadata important_metadata m = trimmed_metadata_from Map.empty important_metadata m"

definition trimmed_data_object :: "string list \<Rightarrow> document \<Rightarrow> document" where
  "trimmed_data_object important_metadata data =
     \<lparr>page_content = page_content data,
      metadata = trimmed_metadata important_metadata (metadata data)\<rparr>"

fun trimmed_pdf_data :: "string list \<Rightarrow> document list \<Rightarrow> document list" where
  "trimmed_pdf_data important_metadata [] = []"
| "trimmed_pdf_data important_metadata (data # pdf_data) =
     trimmed_data_object important_metadata data # trimmed_pdf_data important_metadata pdf_data"

definition important_metadata :: "string list" where
  "important_metadata = [''title'', ''page'', ''creator'', ''author'']"

section \<open>Step 3: splitting into chunks\<close>

text \<open>
  \<^verbatim>\<open>split_text\<close> builds a \<^verbatim>\<open>CharacterTextSplitter\<close> from its three parameters and
  returns \<^verbatim>\<open>splitter.split_documents(documents)\<close>. The splitter is a class of the
  langchain library; the notebook holds none of its code. Its construction is a
  parameter here: given \<^verbatim>\<open>chunk_overlap\<close>, \<^verbatim>\<open>chunk_size\<close> and \<^verbatim>\<open>separator\<close> it either
  raises or yields the function that cuts one text into chunk texts.
\<close>

type_synonym text_splitter = "int \<Rightarrow> int \<Rightarrow> string \<Rightarrow> error + (string \<Rightarrow> string list)"

text \<open>
  Modelled from the spec: \<^verbatim>\<open>split_documents\<close> of the langchain splitter, which is not
  among the sources. Section 4.1: every source document is cut on its own, and its
  metadata is copied unchanged into every chunk derived from it.
\<close>

definition chunks_of :: "(string \<Rightarrow> string list) \<Rightarrow> document \<Rightarrow> document list" where
  "chunks_of splitter doc =
     map (\<lambda>chunk. \<lparr>page_content = chunk, metadata = metadata doc\<rparr>)
       (splitter (page_content doc))"

definition split_documents :: "(string \<Rightarrow> string list) \<Rightarrow> document list \<Rightarrow> document list" where
  "split_documents splitter documents = concat (map (chunks_of splitter) documents)"

definition split_text ::
  "text_splitter \<Rightarrow> document list \<Rightarrow> int \<Rightarrow> int \<Rightarrow> string \<Rightarrow> error + document list" where
  "split_text CharacterTextSplitter documents chunk_overlap chunk_size separator =
     (case CharacterTextSplitter chunk_overlap chunk_size separator of
        Inl e \<Rightarrow> Inl e
      | Inr splitter \<Rightarrow> Inr (split_documents splitter documents))"

section \<open>Step 4: the vector store\<close>

text \<open>
  Modelled from the spec: the vector store and its records (sections 3, 4.2 and 6).
  The store is a Chroma collection, reached through \<^verbatim>\<open>similarity_search\<close> and
  \<^verbatim>\<open>add_documents\<close>; embedding model and distance metric belong to it, and none of
  that code is among the sources. A store is the list of its embedded records in
  insertion order; the embedding function, the metric and the default result count are
  parameters.
\<close>

record 'vec embedded_record =
  rid :: nat
  content :: string
  rmetadata :: "string \<rightharpoonup> scalar"
  vector :: 'vec

type_synonym 'vec chroma = "'vec embedded_record list"

record ('vec, 'd) backend =
  embed :: "string \<Rightarrow> 'vec"
  distance :: "'vec \<Rightarrow> 'vec \<Rightarrow> 'd"
  default_k :: nat

definition document_of :: "'vec embedded_record \<Rightarrow> document" where
  "document_of r = \<lparr>page_content = content r, metadata = rmetadata r\<rparr>"

text \<open>
  Modelled from the spec: \<^verbatim>\<open>Chroma.add_documents\<close>. Every document of the batch is
  embedded and appended in order, each under a fresh identifier: identifiers are
  numbers here, and the fresh ones start above every identifier in the store.
\<close>

definition next_id :: "'vec chroma \<Rightarrow> nat" where
  "next_id vector_store = Max (insert 0 ((\<lambda>r. Suc (rid r)) ` set vector_store))"

fun new_records :: "('vec, 'd) backend \<Rightarrow> nat \<Rightarrow> document list \<Rightarrow> 'vec embedded_record list" where
  "new_records be n [] = []"
| "new_records be n (doc # docs) =
     \<lparr>rid = n, content = page_content doc, rmetadata = metadata doc,
      vector = embed be (page_content doc)\<rparr> # new_records be (Suc n) docs"

definition add_documents ::
  "('vec, 'd) backend \<Rightarrow> 'vec chroma \<Rightarrow> document list \<Rightarrow> 'vec chroma" where
  "add_documents be vector_store docs =
     vector_store @ new_records be (next_id vector_store) docs"

text \<open>
  Modelled from the spec: \<^verbatim>\<open>Chroma.similarity_search(query, k)\<close>. The query is embedded
  once; the records are ranked by their distance to the query vector, records at the
  same distance staying in insertion order (\<^const>\<open>sort_key\<close> is a stable insertion
  sort); the first \<open>k\<close> are returned. An absent or zero \<open>k\<close> stands for the
  default count. A result is the record's content and metadata as they were stored
  (section 3); the identifier is a field of the record beside them and is not part
  of the returned metadata, as the output saved with the notebook's query shows:
  \<^verbatim>\<open>Metadata: {'author': '', 'creator': 'Writer', 'page': 5, 'title': ''}\<close>.
\<close>

definition score :: "('vec, 'd) backend \<Rightarrow> string \<Rightarrow> 'vec embedded_record \<Rightarrow> 'd" where
  "score be query r = distance be (embed be query) (vector r)"

definition result_count :: "('vec, 'd) backend \<Rightarrow> nat option \<Rightarrow> nat" where
  "result_count be k = (case k of None \<Rightarrow> default_k be | Some n \<Rightarrow> if n = 0 then default_k be else n)"

definition search :: "('vec, 'd::linorder) backend \<Rightarrow> 'vec chroma \<Rightarrow> string \<Rightarrow> nat option \<Rightarrow> 'vec embedded_record list" where
  "search be vector_store query k =
     take (result_count be k) (sort_key (score be query) vector_store)"

definition result_document :: "'vec embedded_record \<Rightarrow> document" where
  "result_document r = \<lparr>page_content = content r, metadata = rmetadata r\<rparr>"

definition similarity_search ::
  "('vec, 'd::linorder) backend \<Rightarrow> 'vec chroma \<Rightarrow> string \<Rightarrow> nat option \<Rightarrow> document list" where
  "similarity_search be vector_store query k = map result_document (search be vector_store query k)"

text \<open>
  \<^verbatim>\<open>add_documents_to_vector_store\<close>, statement by statement. \<^verbatim>\<open>del doc.metadata['id']\<close>
  raises \<^verbatim>\<open>KeyError\<close> on a dictionary without that key; the loop works on a deep copy, so
  the store's own data is untouched.
\<close>

definition del_key :: "string \<Rightarrow> (string \<rightharpoonup> scalar) \<Rightarrow> error + (string \<rightharpoonup> scalar)" where
  "del_key key m = (if key \<in> dom m then Inr (m(key := None)) else Inl (KeyError key))"

fun without_id :: "document list \<Rightarrow> error + document list" where
  "without_id [] = Inr []"
| "without_id (doc # stored_data) =
     (case del_key ''id'' (metadata doc) of
        Inl e \<Rightarrow> Inl e
      | Inr m \<Rightarrow>
          (case without_id stored_data of
             Inl e \<Rightarrow> Inl e
           | Inr docs \<Rightarrow> Inr (doc\<lparr>metadata := m\<rparr> # docs)))"

definition stored_documents_without_id ::
  "('vec, 'd::linorder) backend \<Rightarrow> 'vec chroma \<Rightarrow> bool \<Rightarrow> nat option \<Rightarrow> error + document list" where
  "stored_documents_without_id be vector_store allow_duplicates limit =
     (if \<not> allow_duplicates then without_id (similarity_search be vector_store [] limit)
      else Inr [])"

fun documents_to_add :: "document list \<Rightarrow> document list \<Rightarrow> document list" where
  "documents_to_add stored [] = []"
| "documents_to_add stored (doc # ingest_data) =
     (if doc \<notin> set stored then doc # documents_to_add stored ingest_data
      else documents_to_add stored ingest_data)"

definition add_documents_to_vector_store ::
  "('vec, 'd::linorder) backend \<Rightarrow> 'vec chroma \<Rightarrow> document list \<Rightarrow> bool \<Rightarrow> nat option
     \<Rightarrow> error + 'vec chroma" where
  "add_documents_to_vector_store be vector_store ingest_data allow_duplicates limit =
     (if ingest_data = [] then Inr vector_store
      else
        (case stored_documents_without_id be vector_store allow_duplicates limit of
           Inl e \<Rightarrow> Inl e
         | Inr stored \<Rightarrow>
             (if documents_to_add stored ingest_data \<noteq> []
              then Inr (add_documents be vector_store (documents_to_add stored ingest_data))
              else Inr vector_store)))"

section \<open>Step 5: querying the store\<close>

text \<open>
  \<^verbatim>\<open>search_results = chroma_store.similarity_search(query, k=5)\<close>
\<close>

definition search_results ::
  "('vec, 'd::linorder) backend \<Rightarrow> 'vec chroma \<Rightarrow> string \<Rightarrow> nat \<Rightarrow> document list" where
  "search_results be chroma_store query k = similarity_search be chroma_store query (Some k)"

section \<open>Steps 6 to 8: context, instruction, answer\<close>

text \<open>Python's \<^verbatim>\<open>sep.join(parts)\<close>.\<close>

fun join :: "string \<Rightarrow> string list \<Rightarrow> string" where
  "join sep [] = []"
| "join sep [x] = x"
| "join sep (x # y # ys) = x @ sep @ join sep (y # ys)"

definition newline :: string where
  "newline = [CHR 0x0A]"

text \<open>
  \<^verbatim>\<open>search_result_text = "\n".join([result.page_content for result in search_results])\<close>
\<close>

definition search_result_text :: "document list \<Rightarrow> string" where
  "search_result_text results = join newline (map page_content results)"

text \<open>Steps 5 and 6 in sequence are the spec's \<^verbatim>\<open>retrieve(store, query, k)\<close>.\<close>

definition retrieve :: "('vec, 'd::linorder) backend \<Rightarrow> 'vec chroma \<Rightarrow> string \<Rightarrow> nat \<Rightarrow> string" where
  "retrieve be chroma_store query k = search_result_text (search_results be chroma_store query k)"

text \<open>
  \<^verbatim>\<open>instructions = f"Context: {search_result_text} \nQuestion: {query}"\<close>: the literal
  pieces of the template are \<^verbatim>\<open>Context: \<close> and a blank, a line feed and \<^verbatim>\<open>Question: \<close>.
\<close>

definition instructions :: "string \<Rightarrow> string \<Rightarrow> string" where
  "instructions context query =
     ''Context: '' @ context @ ('' '' @ newline @ ''Question: '') @ query"

text \<open>
  The last cell calls \<^verbatim>\<open>client.chat.completions.create\<close> with one user message holding the
  instruction and shows \<^verbatim>\<open>result.choices[0].message.content\<close>. The client is external: a
  call takes the client's state and the prompt and gives either an exception or the
  texts of the returned choices, with the client's next state. Indexing an empty list
  of choices raises \<^verbatim>\<open>IndexError\<close>.
\<close>

type_synonym 'g completions = "'g \<Rightarrow> string \<Rightarrow> (error + string list) \<times> 'g"

definition first_choice :: "string list \<Rightarrow> error + string" where
  "first_choice choices = (case choices of [] \<Rightarrow> Inl IndexError | c # _ \<Rightarrow> Inr c)"

definition answer :: "'g completions \<Rightarrow> 'g \<Rightarrow> string \<Rightarrow> string \<Rightarrow> (error + string) \<times> 'g" where
  "answer create client context query =
     (case create client (instructions context query) of
        (Inl e, client') \<Rightarrow> (Inl e, client')
      | (Inr choices, client') \<Rightarrow> (first_choice choices, client'))"

section \<open>Example values\<close>

text \<open>
  A small backend for the examples: a text is embedded as its length, and the distance
  of two such vectors is their absolute difference.
\<close>

abbreviation demo :: "(nat, nat) backend" where
  "demo \<equiv> \<lparr>embed = length, distance = (\<lambda>a b. (a - b) + (b - a)), default_k = 4\<rparr>"

abbreviation doc_a :: document where
  "doc_a \<equiv> \<lparr>page_content = ''a'', metadata = Map.empty\<rparr>"


abbreviation rec_a :: "nat \<Rightarrow> nat embedded_record" where
  "rec_a n \<equiv> \<lparr>rid = n, content = ''a'', rmetadata = Map.empty, vector = 1\<rparr>"

abbreviation rec_b :: "nat \<Rightarrow> nat embedded_record" where
  "rec_b n \<equiv> \<lparr>rid = n, content = ''b'', rmetadata = Map.empty, vector = 1\<rparr>"


abbreviation rec_far :: "nat \<Rightarrow> nat embedded_record" where
  "rec_far n \<equiv> \<lparr>rid = n, content = ''far'', rmetadata = Map.empty, vector = 3\<rparr>"

section \<open>Properties of the metadata trimming and of the chunks' metadata\<close>

lemma trimmed_metadata_from_eq:
  "trimmed_metadata_from acc keys m = acc ++ (m |` set keys)"
proof (induction keys arbitrary: acc)
  case Nil
  then show ?case by simp
next
  case (Cons key keys)
  show ?case
  proof (cases "m key")
    case (Some v)
    have "trimmed_metadata_from acc (key # keys) m = trimmed_metadata_from (acc(key \<mapsto> v)) keys m"
      using Some by (simp add: dict_get_def dom_def)
    also have "\<dots> = (acc(key \<mapsto> v)) ++ (m |` set keys)"
      by (rule Cons.IH)
    also have "\<dots> = acc ++ (m |` set (key # keys))"
      using Some by (auto simp: fun_eq_iff map_add_def restrict_map_def split: option.splits)
    finally show ?thesis .
  next
    case None
    then have "m |` set keys = m |` set (key # keys)"
      by (auto simp: fun_eq_iff restrict_map_def)
    with None show ?thesis by (simp add: Cons.IH dom_def)
  qed
qed

lemma trimmed_metadata_restrict: "trimmed_metadata keys m = m |` set keys"
  by (simp add: trimmed_metadata_def trimmed_metadata_from_eq)

lemma trimmed_pdf_data_map:
  "trimmed_pdf_data keys pdf_data = map (trimmed_data_object keys) pdf_data"
  by (induction pdf_data) simp_all

lemma chunks_of_trimmed:
  "chunks_of splitter (trimmed_data_object keys parent) =
     map (\<lambda>chunk. \<lparr>page_content = chunk, metadata = metadata parent |` set keys\<rparr>)
       (splitter (page_content parent))"
  by (simp add: chunks_of_def trimmed_data_object_def trimmed_metadata_restrict)

text \<open>
  C8. The documents handed to \<^verbatim>\<open>split_text\<close> are the trimmed ones, so whenever the
  splitter can be built, the chunks are, parent by parent and in order, the pieces the
  splitter cuts from the parent's text, each carrying the parent's metadata
  restricted to the keys of the allow-list: a key of the allow-list keeps the parent's
  value, every other key is absent. All chunks of one parent therefore carry the same
  trimmed metadata.
\<close>

theorem chunks_carry_trimmed_parent_metadata:
  assumes "CharacterTextSplitter chunk_overlap chunk_size separator = Inr splitter"
  shows "split_text CharacterTextSplitter (trimmed_pdf_data keys pdf_data)
           chunk_overlap chunk_size separator =
         Inr (concat (map (\<lambda>parent.
                map (\<lambda>chunk. \<lparr>page_content = chunk, metadata = metadata parent |` set keys\<rparr>)
                  (splitter (page_content parent))) pdf_data))"
proof -
  have "split_documents splitter (trimmed_pdf_data keys pdf_data) =
          concat (map (\<lambda>parent. chunks_of splitter (trimmed_data_object keys parent)) pdf_data)"
    by (simp add: split_documents_def trimmed_pdf_data_map comp_def)
  then show ?thesis
    using assms by (simp add: split_text_def chunks_of_trimmed)
qed

theorem chunks_carry_trimmed_parent_metadata_witness:
  "(\<lambda>chunk_overlap chunk_size separator. Inr (\<lambda>text. [take 2 text, drop 2 text])) 1 2 '' ''
     = (Inr (\<lambda>text. [take 2 text, drop 2 text]) :: error + (string \<Rightarrow> string list)) \<and>
   split_text (\<lambda>chunk_overlap chunk_size separator. Inr (\<lambda>text. [take 2 text, drop 2 text]))
     (trimmed_pdf_data important_metadata
        [\<lparr>page_content = ''abcd'',
          metadata = [''producer'' \<mapsto> Str ''P'', ''page'' \<mapsto> Num 0]\<rparr>]) 1 2 '' '' =
   Inr [\<lparr>page_content = ''ab'', metadata = [''page'' \<mapsto> Num 0]\<rparr>,
        \<lparr>page_content = ''cd'', metadata = [''page'' \<mapsto> Num 0]\<rparr>]"
proof -
  have m: "[''producer'' \<mapsto> Str ''P'', ''page'' \<mapsto> Num 0] |` set important_metadata
             = [''page'' \<mapsto> Num 0]"
    by (auto simp: fun_eq_iff restrict_map_def important_metadata_def)
  show ?thesis
    using chunks_carry_trimmed_parent_metadata
      [of "\<lambda>chunk_overlap chunk_size separator. Inr (\<lambda>text. [take 2 text, drop 2 text])"
          1 2 "'' ''" "\<lambda>text. [take 2 text, drop 2 text]" important_metadata
          "[\<lparr>page_content = ''abcd'',
             metadata = [''producer'' \<mapsto> Str ''P'', ''page'' \<mapsto> Num 0]\<rparr>]"]
    by (simp add: m del: restrict_fun_upd)
qed

section \<open>Properties of the context and of the instruction\<close>

lemma join_Cons: "join sep (x # xs) = x @ concat (map (\<lambda>y. sep @ y) xs)"
  by (induction xs arbitrary: x) simp_all

text \<open>
  C7. The context is the newline-separated join of the contents of what the store's
  search returns for the query and \<open>k\<close>, in result order: nothing for no results
  (the empty string, no exception), and otherwise the content of the first result
  followed by a line feed and the content of each further result in turn. This is
  stated for the documents of \<^verbatim>\<open>similarity_search\<close> and for the ranked records
  behind them.
\<close>

theorem retrieve_is_newline_join_of_contents:
  "retrieve be chroma_store query k =
     (case similarity_search be chroma_store query (Some k) of
        [] \<Rightarrow> []
      | r # rs \<Rightarrow> page_content r @ concat (map (\<lambda>x. CHR 0x0A # page_content x) rs)) \<and>
   retrieve be chroma_store query k =
     (case search be chroma_store query (Some k) of
        [] \<Rightarrow> []
      | r # rs \<Rightarrow> content r @ concat (map (\<lambda>x. CHR 0x0A # content x) rs))"
proof
  show "retrieve be chroma_store query k =
     (case similarity_search be chroma_store query (Some k) of
        [] \<Rightarrow> []
      | r # rs \<Rightarrow> page_content r @ concat (map (\<lambda>x. CHR 0x0A # page_content x) rs))"
    by (cases "similarity_search be chroma_store query (Some k)")
       (simp_all add: retrieve_def search_results_def search_result_text_def join_Cons
          newline_def comp_def)
  show "retrieve be chroma_store query k =
     (case search be chroma_store query (Some k) of
        [] \<Rightarrow> []
      | r # rs \<Rightarrow> content r @ concat (map (\<lambda>x. CHR 0x0A # content x) rs))"
    by (cases "search be chroma_store query (Some k)")
       (simp_all add: retrieve_def search_results_def similarity_search_def
          search_result_text_def join_Cons newline_def result_document_def comp_def)
qed

text \<open>
  C9. The instruction is \<^verbatim>\<open>Context: \<close>, the context, a blank, a line feed,
  \<^verbatim>\<open>Question: \<close> and the query. The client is called once, on that instruction: the
  client's state afterwards is the state that one call leaves. What the call raises is
  passed on without another attempt, and what it returns is the text of its first
  choice, unchanged.
\<close>

theorem answer_submits_instructions_once:
  "instructions context query =
     ''Context: '' @ context @ [CHR '' '', CHR 0x0A] @ ''Question: '' @ query \<and>
   snd (answer create client context query) = snd (create client (instructions context query)) \<and>
   fst (answer create client context query) =
     (case fst (create client (instructions context query)) of
        Inl e \<Rightarrow> Inl e
      | Inr choices \<Rightarrow> (case choices of [] \<Rightarrow> Inl IndexError | text # _ \<Rightarrow> Inr text))"
  by (cases "create client (instructions context query)")
     (auto simp: instructions_def newline_def answer_def first_choice_def
        split: sum.splits list.splits)

section \<open>Properties of the insertion into the vector store\<close>

lemma documents_to_add_filter:
  "documents_to_add stored ingest_data = filter (\<lambda>doc. doc \<notin> set stored) ingest_data"
  by (induction ingest_data) simp_all

lemma rid_less_next_id: "r \<in> set vs \<Longrightarrow> rid r < next_id vs"
proof -
  assume "r \<in> set vs"
  then have "Suc (rid r) \<le> Max (insert 0 ((\<lambda>r. Suc (rid r)) ` set vs))"
    by (intro Max_ge) auto
  then show ?thesis by (simp add: next_id_def)
qed

lemma rid_new_records: "map rid (new_records be n docs) = [n..<n + length docs]"
  by (induction docs arbitrary: n) (simp_all add: upt_rec)

lemma document_of_new_records: "map document_of (new_records be n docs) = docs"
  by (induction docs arbitrary: n) (simp_all add: document_of_def)

lemma add_documents_Nil: "add_documents be vs [] = vs"
  by (simp add: add_documents_def)

lemma insert_allow_eq:
  "add_documents_to_vector_store be vs ingest True limit = Inr (add_documents be vs ingest)"
  by (simp add: add_documents_to_vector_store_def stored_documents_without_id_def
      documents_to_add_filter add_documents_Nil)


lemmas insert_eval =
  add_documents_to_vector_store_def stored_documents_without_id_def similarity_search_def
  search_def result_count_def result_document_def del_key_def add_documents_def next_id_def
  document_of_def

lemma new_records_fresh:
  "distinct (map rid (new_records be (next_id vs) docs)) \<and>
   set (map rid (new_records be (next_id vs) docs)) \<inter> set (map rid vs) = {}"
proof -
  have "\<And>r. r \<in> set vs \<Longrightarrow> rid r \<notin> {next_id vs..<next_id vs + length docs}"
    using rid_less_next_id[of _ vs] by fastforce
  then show ?thesis by (auto simp: rid_new_records)
qed


lemma without_id_KeyError:
  "doc \<in> set docs \<Longrightarrow> ''id'' \<notin> dom (metadata doc) \<Longrightarrow> without_id docs = Inl (KeyError ''id'')"
proof (induction docs)
  case Nil
  then show ?case by simp
next
  case (Cons d docs)
  show ?case
  proof (cases "''id'' \<in> dom (metadata d)")
    case True
    with Cons.prems have "doc \<in> set docs" by auto
    with Cons.IH Cons.prems(2) have "without_id docs = Inl (KeyError ''id'')" by simp
    with True show ?thesis by (simp add: del_key_def)
  next
    case False
    then show ?thesis by (simp add: del_key_def)
  qed
qed

lemma dedup_insert_raises:
  assumes "r \<in> set (search be vs [] limit)" and "''id'' \<notin> dom (rmetadata r)"
      and "ingest \<noteq> []"
  shows "add_documents_to_vector_store be vs ingest False limit = Inl (KeyError ''id'')"
proof -
  have "result_document r \<in> set (similarity_search be vs [] limit)"
    using assms(1) by (simp add: similarity_search_def)
  moreover have "''id'' \<notin> dom (metadata (result_document r))"
    using assms(2) by (simp add: result_document_def)
  ultimately have "without_id (similarity_search be vs [] limit) = Inl (KeyError ''id'')"
    by (rule without_id_KeyError)
  with assms(3) show ?thesis
    by (simp add: add_documents_to_vector_store_def stored_documents_without_id_def)
qed



text \<open>
  C5. With duplicates allowed the whole batch is appended in order, whatever the store
  holds, and the identifiers of the new records differ from one another and from every
  identifier already in the store. Inserting one document in two successive calls
  leaves two more records of that document, under different identifiers.
\<close>

theorem allow_duplicates_appends_every_chunk:
  "(\<exists>new. add_documents_to_vector_store be vs ingest True limit = Inr (vs @ new) \<and>
          map document_of new = ingest \<and>
          distinct (map rid new) \<and> set (map rid new) \<inter> set (map rid vs) = {}) \<and>
   (\<exists>r1 r2. add_documents_to_vector_store be vs [doc] True limit = Inr (vs @ [r1]) \<and>
          add_documents_to_vector_store be (vs @ [r1]) [doc] True limit = Inr (vs @ [r1, r2]) \<and>
          document_of r1 = doc \<and> document_of r2 = doc \<and> rid r1 \<noteq> rid r2)"
proof
  let ?new = "new_records be (next_id vs) ingest"
  have "add_documents_to_vector_store be vs ingest True limit = Inr (vs @ ?new)"
    by (simp add: insert_allow_eq add_documents_def)
  then show "\<exists>new. add_documents_to_vector_store be vs ingest True limit = Inr (vs @ new) \<and>
          map document_of new = ingest \<and>
          distinct (map rid new) \<and> set (map rid new) \<inter> set (map rid vs) = {}"
    using new_records_fresh[of be vs ingest] document_of_new_records[of be "next_id vs" ingest]
    by blast
next
  define r1 where "r1 = \<lparr>rid = next_id vs, content = page_content doc, rmetadata = metadata doc,
      vector = embed be (page_content doc)\<rparr>"
  define r2 where "r2 = \<lparr>rid = next_id (vs @ [r1]), content = page_content doc,
      rmetadata = metadata doc, vector = embed be (page_content doc)\<rparr>"
  have 1: "add_documents_to_vector_store be vs [doc] True limit = Inr (vs @ [r1])"
    by (simp add: insert_allow_eq add_documents_def r1_def)
  have 2: "add_documents_to_vector_store be (vs @ [r1]) [doc] True limit = Inr (vs @ [r1, r2])"
    by (simp add: insert_allow_eq add_documents_def r2_def)
  have "rid r1 < next_id (vs @ [r1])"
    by (rule rid_less_next_id) simp
  then have 3: "rid r1 \<noteq> rid r2"
    by (simp add: r2_def)
  have 4: "document_of r1 = doc" "document_of r2 = doc"
    by (simp_all add: r1_def r2_def document_of_def)
  from 1 2 3 4 show "\<exists>r1 r2. add_documents_to_vector_store be vs [doc] True limit = Inr (vs @ [r1]) \<and>
          add_documents_to_vector_store be (vs @ [r1]) [doc] True limit = Inr (vs @ [r1, r2]) \<and>
          document_of r1 = doc \<and> document_of r2 = doc \<and> rid r1 \<noteq> rid r2"
    by blast
qed


text \<open>
  C1. The claim fails on the code. The first insertion of a document into an empty
  store goes through, since the scan returns nothing. The second insertion scans the
  record just stored; the scanned document has the metadata that was stored, without
  a key \<^verbatim>\<open>id\<close>, and \<^verbatim>\<open>del doc.metadata['id']\<close> raises \<^verbatim>\<open>KeyError\<close> before any
  candidate is compared. The function means to strip the store's identifier from the
  scanned documents and looks for it in the wrong place.
\<close>

theorem second_dedup_insert_raises_KeyError:
  "add_documents_to_vector_store demo [] [doc_a] False (Some 1) = Inr [rec_a 0] \<and>
   add_documents_to_vector_store demo [rec_a 0] [doc_a] False (Some 1) = Inl (KeyError ''id'')"
  by (simp add: insert_eval)

section \<open>Properties of the search\<close>

lemma filter_take_prefix:
  "filter P (take k xs) = take (length (filter P (take k xs))) (filter P xs)"
proof -
  have "filter P xs = filter P (take k xs) @ filter P (drop k xs)"
    by (metis append_take_drop_id filter_append)
  then show ?thesis by simp
qed

lemma sorted_take_le_drop:
  assumes "sorted (map f xs)" "x \<in> set (take k xs)" "y \<in> set (drop k xs)"
  shows "f x \<le> f y"
proof -
  have "sorted (map f (take k xs) @ map f (drop k xs))"
    using assms(1) by (metis append_take_drop_id map_append)
  with assms(2,3) show ?thesis by (auto simp: sorted_append)
qed

text \<open>
  C6. For a positive \<open>k\<close> the search returns \<open>k\<close> records, or all of them when the
  store has fewer, in order of non-decreasing distance to the query vector; no
  record left out is closer than a returned one; among records at the same distance
  the returned ones are the earliest inserted, in insertion order; and the documents
  of \<^verbatim>\<open>similarity_search\<close> are those records in that order. The search is a function of
  the store, the query and \<open>k\<close>, so that repeating it on an unchanged store gives the
  same list.
\<close>

theorem search_returns_k_best_in_rank_order:
  assumes "0 < k"
  shows "length (search be vs query (Some k)) = min k (length vs) \<and>
         sorted (map (score be query) (search be vs query (Some k))) \<and>
         (\<forall>r\<in>set (search be vs query (Some k)).
            \<forall>r'\<in>set (drop k (sort_key (score be query) vs)). score be query r \<le> score be query r') \<and>
         (\<forall>d. \<exists>n. filter (\<lambda>r. score be query r = d) (search be vs query (Some k)) =
                  take n (filter (\<lambda>r. score be query r = d) vs)) \<and>
         search_results be vs query k = map result_document (search be vs query (Some k))"
proof -
  let ?f = "score be query"
  have s: "search be vs query (Some k) = take k (sort_key ?f vs)"
    using assms by (simp add: search_def result_count_def)
  have sorted_all: "sorted (map ?f (sort_key ?f vs))"
    by (rule sorted_sort_key)
  have 1: "length (search be vs query (Some k)) = min k (length vs)"
    by (simp add: s min.commute)
  have 2: "sorted (map ?f (search be vs query (Some k)))"
    unfolding s take_map[symmetric] using sorted_all by (rule sorted_wrt_take)
  have 3: "\<forall>r\<in>set (search be vs query (Some k)).
            \<forall>r'\<in>set (drop k (sort_key ?f vs)). ?f r \<le> ?f r'"
    unfolding s using sorted_take_le_drop[OF sorted_all] by blast
  have 4: "\<exists>n. filter (\<lambda>r. ?f r = d) (search be vs query (Some k)) =
                  take n (filter (\<lambda>r. ?f r = d) vs)" for d
  proof -
    have "filter (\<lambda>r. ?f r = d) (take k (sort_key ?f vs)) =
            take (length (filter (\<lambda>r. ?f r = d) (take k (sort_key ?f vs))))
              (filter (\<lambda>r. ?f r = d) (sort_key ?f vs))"
      by (rule filter_take_prefix)
    then show ?thesis unfolding s sort_key_stable by (rule exI)
  qed
  have 5: "search_results be vs query k = map result_document (search be vs query (Some k))"
    by (simp add: search_results_def similarity_search_def)
  from 1 2 3 4 5 show ?thesis by (intro conjI allI)
qed

theorem search_returns_k_best_in_rank_order_witness:
  "(0::nat) < 2 \<and>
   search demo [rec_far 0, rec_a 1, rec_b 2, rec_a 3] ''q'' (Some 2) = [rec_a 1, rec_b 2] \<and>
   length (search demo [rec_far 0, rec_a 1, rec_b 2, rec_a 3] ''q'' (Some 2)) = 2 \<and>
   sorted (map (score demo ''q'') (search demo [rec_far 0, rec_a 1, rec_b 2, rec_a 3] ''q'' (Some 2)))"
proof -
  have k: "(0::nat) < 2" by simp
  have e: "search demo [rec_far 0, rec_a 1, rec_b 2, rec_a 3] ''q'' (Some 2) = [rec_a 1, rec_b 2]"
    by (simp add: search_def result_count_def score_def)
  note t = search_returns_k_best_in_rank_order
    [OF k, of demo "[rec_far 0, rec_a 1, rec_b 2, rec_a 3]" "''q''"]
  have l: "length (search demo [rec_far 0, rec_a 1, rec_b 2, rec_a 3] ''q'' (Some 2))
          = min 2 (length [rec_far 0, rec_a 1, rec_b 2, rec_a 3])"
    by (rule t[THEN conjunct1])
  have srt: "sorted (map (score demo ''q'')
          (search demo [rec_far 0, rec_a 1, rec_b 2, rec_a 3] ''q'' (Some 2)))"
    by (rule t[THEN conjunct2, THEN conjunct1])
  from l have "length (search demo [rec_far 0, rec_a 1, rec_b 2, rec_a 3] ''q'' (Some 2)) = 2"
    by simp
  with k e srt show ?thesis by (intro conjI)
qed

end
